theory Spec2Isabelle
  imports Main "HOL-Library.AList" "HOL-Library.Multiset"
begin

section \<open>Data model of timeline-service.ts\<close>

text \<open>
  The records follow the classes and interfaces of the source. A field keeps the name it
  has in the source unless two records would share it or HOL already uses it:
  \<open>TimelineItem.id\<close> is \<open>item_id\<close>, the \<open>source\<close> that the service stamps on an item is
  \<open>item_source\<close>, the fields of \<open>TimelineAggregate\<close> carry the prefix \<open>agg_\<close>, those of
  \<open>TimelineProvider\<close> and \<open>TimelineSource\<close> the prefixes \<open>provider_\<close> and \<open>source_\<close>.
  An optional field is an \<open>option\<close>. A timestamp is a number of milliseconds, an \<open>int\<close>.
\<close>

record TimelineItem =
  handle :: string
  timestamp :: int
  label :: string
  item_id :: "string option"
  description :: "string option"
  detail :: "string option"
  command :: "string option"
  contextValue :: "string option"
  item_source :: "string option"

record TimelineChangeEvent =
  event_id :: string
  event_uri :: "string option"
  event_reset :: bool

record TimelineProvidersChangeEvent =
  added :: "string list option"
  removed :: "string list option"

datatype Limit = Count int | Watermark int "string option"

record TimelineOptions =
  cursor :: "string option"
  limit :: "Limit option"

text \<open>
  \<open>paging?: { readonly cursor: string | undefined }\<close>: \<open>None\<close> is a response without a
  paging object, \<open>Some None\<close> a paging object whose cursor is undefined.
\<close>

record Timeline =
  source :: string
  paging :: "string option option"
  items :: "TimelineItem list"

text \<open>Of the imported class \<open>URI\<close> the source reads \<open>scheme\<close> and \<open>toString()\<close>.\<close>

record URI =
  uri_scheme :: string
  uri_toString :: string

datatype CancellationToken = CancellationToken_None | CancellationToken_Of nat

text \<open>A promise that has settled: fulfilled with a value, or rejected with a reason.\<close>

datatype 'a promise = Resolved 'a | Rejected string

record TimelineRequest =
  result :: "Timeline option promise"
  options :: TimelineOptions
  request_source :: string
  tokenSource :: CancellationToken
  uri :: URI

text \<open>\<open>scheme: string | string[]\<close>.\<close>

datatype Scheme = SchemeString string | SchemeArray "string list"

text \<open>
  A provider. \<open>onDidChange\<close> names the provider's event source when it has one;
  \<open>provideTimeline\<close> gives the settled promise of a call. \<open>dispose\<close> is the provider's own
  \<open>dispose()\<close>: given the listeners attached to the event sources, it tells whether the call
  throws (\<open>Inl reason\<close>) or returns, and which listeners are attached after it: a provider
  may tear down its event source, or leave it as it is.
\<close>

record TimelineProvider =
  provider_id :: string
  provider_label :: string
  scheme :: Scheme
  onDidChange :: "nat option"
  provideTimeline :: "URI \<Rightarrow> TimelineOptions \<Rightarrow> CancellationToken \<Rightarrow> Timeline option promise"
  dispose :: "(nat \<times> nat) list \<Rightarrow> (string + unit) \<times> (nat \<times> nat) list"

record TimelineSource =
  source_id :: string
  source_label :: string

text \<open>
  The \<open>Disposable\<close> that subscribing to an event source returns: the event source and
  the number of the listener it would remove.
\<close>

datatype Subscription = Subscription nat nat

text \<open>The \<open>Disposable\<close> returned by \<open>registerTimelineProvider\<close>: its closure captures the id.\<close>

datatype Registration = Registration string

section \<open>TimelineService\<close>

text \<open>
  The state of a \<open>TimelineService\<close> and of what it acts on. \<open>providers\<close> is the
  \<open>Map\<close> of the class in insertion order, \<open>providerSubscriptions\<close> its second map.
  The other fields record the effects of the service on its surroundings:
  \<^item> \<open>providersFired\<close> and \<open>timelineFired\<close>: the events fired on
    \<open>onDidChangeProvidersEmitter\<close> and on \<open>onDidChangeTimelineEmitter\<close>, oldest first;
  \<^item> \<open>listeners\<close>: the listeners the service has attached to providers' event sources
    and that no \<open>dispose()\<close> of their subscription has removed, \<open>nextListener\<close> the number of
    the next one;
  \<^item> \<open>disposed\<close>: the providers whose \<open>dispose()\<close> the service has called;
  \<^item> \<open>provideTimelineCalls\<close>: the calls of \<open>provideTimeline\<close>, by provider id.
\<close>

record TimelineService =
  providers :: "(string \<times> TimelineProvider) list"
  providerSubscriptions :: "string \<rightharpoonup> Subscription"
  providersFired :: "TimelineProvidersChangeEvent list"
  timelineFired :: "TimelineChangeEvent list"
  listeners :: "(nat \<times> nat) list"
  nextListener :: nat
  disposed :: "TimelineProvider list"
  provideTimelineCalls :: "(string \<times> URI \<times> TimelineOptions \<times> CancellationToken) list"

definition TimelineService_new :: TimelineService where
  "TimelineService_new =
     \<lparr>providers = [], providerSubscriptions = Map.empty, providersFired = [],
      timelineFired = [], listeners = [], nextListener = 0, disposed = [],
      provideTimelineCalls = []\<rparr>"

text \<open>
  \<open>existing.dispose()\<close>: the call is recorded, the listeners are those the provider's
  \<open>dispose()\<close> leaves attached, and its outcome is returned: \<open>Inl reason\<close> when the provider
  throws.
\<close>

definition call_dispose :: "TimelineProvider \<Rightarrow> TimelineService \<Rightarrow> (string + unit) \<times> TimelineService" where
  "call_dispose p svc =
     (case dispose p (listeners svc) of
        (outcome, ls) \<Rightarrow> (outcome, svc\<lparr>listeners := ls, disposed := disposed svc @ [p]\<rparr>))"

text \<open>
  Modelled from the spec: the \<open>Event\<close> of the core library, which is not in the source file,
  as called in \<open>provider.onDidChange(e => this.onDidChangeTimelineEmitter.fire(e))\<close>: a
  listener is attached to the event source, and the subscription that would remove it is
  returned.
\<close>

definition subscribe :: "nat \<Rightarrow> TimelineService \<Rightarrow> Subscription \<times> TimelineService" where
  "subscribe ev svc =
     (Subscription ev (nextListener svc),
      svc\<lparr>listeners := listeners svc @ [(ev, nextListener svc)],
          nextListener := Suc (nextListener svc)\<rparr>)"

text \<open>
  Modelled from the spec: the \<open>Emitter\<close> of the core library, which is not in the source
  file. An event fired by an event source reaches every listener attached to it at that
  time (fan-out to all current subscribers at time of emission); a listener of the
  service forwards the event to \<open>onDidChangeTimelineEmitter\<close>.
\<close>

definition fire_onDidChange :: "nat \<Rightarrow> TimelineChangeEvent \<Rightarrow> TimelineService \<Rightarrow> TimelineService" where
  "fire_onDidChange ev e svc =
     svc\<lparr>timelineFired := timelineFired svc @ map (\<lambda>_. e) (filter (\<lambda>l. fst l = ev) (listeners svc))\<rparr>"

text \<open>
  Modelled from the spec: the \<open>dispose()\<close> of the subscription that an \<open>Event\<close> of the core
  library returns, which is not in the source file. Releasing the subscription removes
  its listener from the event source. No function of the service calls it.
\<close>

definition Subscription_dispose :: "Subscription \<Rightarrow> TimelineService \<Rightarrow> TimelineService" where
  "Subscription_dispose s svc =
     (case s of Subscription ev n \<Rightarrow> svc\<lparr>listeners := removeAll (ev, n) (listeners svc)\<rparr>)"

text \<open>
  \<open>registerTimelineProvider\<close>. The \<open>try { existing.dispose(); } catch { }\<close> goes on the same
  way whether the call threw or not.
\<close>

definition registerTimelineProvider :: "TimelineProvider \<Rightarrow> TimelineService \<Rightarrow> Registration \<times> TimelineService" where
  "registerTimelineProvider provider svc =
     (let i = provider_id provider;
          existing = map_of (providers svc) i;
          svc1 = (case existing of
                    None \<Rightarrow> svc
                  | Some ex \<Rightarrow> (case call_dispose ex svc of
                                  (Inl _, s) \<Rightarrow> s
                                | (Inr _, s) \<Rightarrow> s));
          svc2 = svc1\<lparr>providers := AList.update i provider (providers svc1)\<rparr>;
          svc3 = (case onDidChange provider of
                    None \<Rightarrow> svc2
                  | Some ev \<Rightarrow> (case subscribe ev svc2 of
                                  (sub, s) \<Rightarrow> s\<lparr>providerSubscriptions := (providerSubscriptions s)(i \<mapsto> sub)\<rparr>));
          svc4 = svc3\<lparr>providersFired := providersFired svc3 @ [\<lparr>added = Some [i], removed = None\<rparr>]\<rparr>
      in (Registration i, svc4))"

text \<open>The \<open>dispose\<close> of the object that \<open>registerTimelineProvider\<close> returns.\<close>

definition Registration_dispose :: "Registration \<Rightarrow> TimelineService \<Rightarrow> TimelineService" where
  "Registration_dispose r svc =
     (case r of Registration i \<Rightarrow>
        svc\<lparr>providers := AList.delete i (providers svc),
            providersFired := providersFired svc @ [\<lparr>added = None, removed = Some [i]\<rparr>]\<rparr>)"

definition unregisterTimelineProvider :: "string \<Rightarrow> TimelineService \<Rightarrow> TimelineService" where
  "unregisterTimelineProvider i svc =
     (if map_of (providers svc) i = None then svc
      else svc\<lparr>providers := AList.delete i (providers svc),
               providerSubscriptions := (providerSubscriptions svc)(i := None),
               providersFired := providersFired svc @ [\<lparr>added = None, removed = Some [i]\<rparr>]\<rparr>)"

definition getSources :: "TimelineService \<Rightarrow> TimelineSource list" where
  "getSources svc =
     map (\<lambda>kp. \<lparr>source_id = provider_id (snd kp), source_label = provider_label (snd kp)\<rparr>) (providers svc)"

text \<open>
  The callback of \<open>.then\<close> in \<open>getTimeline\<close>: a rejection passes through, an undefined
  result stays undefined, and every item of a result gets the provider's id as its source.
\<close>

definition stamp :: "TimelineProvider \<Rightarrow> Timeline option promise \<Rightarrow> Timeline option promise" where
  "stamp provider p =
     (case p of
        Rejected e \<Rightarrow> Rejected e
      | Resolved None \<Rightarrow> Resolved None
      | Resolved (Some r) \<Rightarrow>
          Resolved (Some (r\<lparr>items := map (\<lambda>item. item\<lparr>item_source := Some (provider_id provider)\<rparr>) (items r)\<rparr>)))"

text \<open>
  \<open>getTimeline\<close>. The scheme is checked only when it is a string; an array of schemes
  goes on to the call of the provider.
\<close>

definition getTimeline :: "string \<Rightarrow> URI \<Rightarrow> TimelineOptions \<Rightarrow> CancellationToken \<Rightarrow> TimelineService
    \<Rightarrow> TimelineRequest option \<times> TimelineService" where
  "getTimeline i u opts tok svc =
     (case map_of (providers svc) i of
        None \<Rightarrow> (None, svc)
      | Some provider \<Rightarrow>
          if (case scheme provider of
                SchemeString s \<Rightarrow> s \<noteq> ''*'' \<and> s \<noteq> uri_scheme u
              | SchemeArray _ \<Rightarrow> False)
          then (None, svc)
          else (Some \<lparr>result = stamp provider (provideTimeline provider u opts tok),
                      options = opts,
                      request_source = provider_id provider,
                      tokenSource = tok,
                      uri = u\<rparr>,
                svc\<lparr>provideTimelineCalls := provideTimelineCalls svc @ [(provider_id provider, u, opts, tok)]\<rparr>))"

section \<open>TimelineAggregate\<close>

record TimelineAggregate =
  agg_items :: "TimelineItem list"
  agg_source :: string
  agg_cursor :: "string option"

definition paging_cursor :: "Timeline \<Rightarrow> string option" where
  "paging_cursor t = (case paging t of None \<Rightarrow> None | Some c \<Rightarrow> c)"

definition TimelineAggregate_new :: "Timeline \<Rightarrow> TimelineAggregate" where
  "TimelineAggregate_new t =
     \<lparr>agg_items = items t, agg_source = source t, agg_cursor = paging_cursor t\<rparr>"

text \<open>
  \<open>add\<close>: push, then \<open>sort((a, b) => b.timestamp - a.timestamp)\<close>, a stable sort with the
  greatest timestamp first.
\<close>

definition add :: "TimelineItem list \<Rightarrow> TimelineAggregate \<Rightarrow> TimelineAggregate" where
  "add new a = a\<lparr>agg_items := sort_key (\<lambda>item. - timestamp item) (agg_items a @ new)\<rparr>"

section \<open>TimelineTreeWidget\<close>

text \<open>One call of \<open>model.renderTimeline(source, uri, items, loadMore)\<close>.\<close>

record Rendered =
  rendered_source :: string
  rendered_uri :: string
  rendered_items :: "TimelineItem list"
  rendered_hasMore :: bool

record TimelineTreeWidget =
  timelinesBySource :: "string \<rightharpoonup> TimelineAggregate"
  timelineService :: TimelineService
  rendered :: "Rendered list"

definition PAGE_SIZE :: int where
  "PAGE_SIZE = 20"

text \<open>\<open>!!cursor\<close>: undefined and the empty string are falsy.\<close>

definition truthy :: "string option \<Rightarrow> bool" where
  "truthy c = (case c of None \<Rightarrow> False | Some s \<Rightarrow> s \<noteq> [])"

text \<open>
  The part of \<open>loadTimelineForSource\<close> before its \<open>await\<close>: the reset, the cursor and the
  options, and the call of \<open>getTimeline\<close>. It returns the aggregate the local variable
  \<open>timeline\<close> holds, the request, and the widget.
\<close>

definition request_page :: "string \<Rightarrow> URI \<Rightarrow> bool \<Rightarrow> TimelineTreeWidget
    \<Rightarrow> TimelineAggregate option \<times> TimelineRequest option \<times> TimelineTreeWidget" where
  "request_page src u reset w =
     (let w1 = (if reset then w\<lparr>timelinesBySource := (timelinesBySource w)(src := None)\<rparr> else w);
          timeline = timelinesBySource w1 src;
          c = (case timeline of None \<Rightarrow> None | Some t \<Rightarrow> agg_cursor t);
          opts = \<lparr>cursor = (if reset then None else c), limit = Some (Count PAGE_SIZE)\<rparr>
      in case getTimeline src u opts CancellationToken_None (timelineService w1) of
           (timelineRequest, svc) \<Rightarrow> (timeline, timelineRequest, w1\<lparr>timelineService := svc\<rparr>))"

text \<open>
  The part after the \<open>await\<close>, for a result that is not undefined. The items of a result
  are an array, so \<open>if (items)\<close> holds.
\<close>

definition merge_page :: "string \<Rightarrow> URI \<Rightarrow> TimelineAggregate option \<Rightarrow> Timeline \<Rightarrow> TimelineTreeWidget
    \<Rightarrow> TimelineTreeWidget" where
  "merge_page src u timeline timelineResult w =
     (let t = (case timeline of
                 Some a \<Rightarrow> (add (items timelineResult) a)\<lparr>agg_cursor := paging_cursor timelineResult\<rparr>
               | None \<Rightarrow> TimelineAggregate_new timelineResult)
      in w\<lparr>timelinesBySource := (timelinesBySource w)(src \<mapsto> t),
           rendered := rendered w @
             [\<lparr>rendered_source = src, rendered_uri = uri_toString u,
               rendered_items = agg_items t, rendered_hasMore = truthy (agg_cursor t)\<rparr>]\<rparr>)"

text \<open>
  \<open>loadTimelineForSource\<close>, run from its call to the settling of the promise it returns,
  with nothing else running in between.
\<close>

definition loadTimelineForSource :: "string \<Rightarrow> URI \<Rightarrow> bool \<Rightarrow> TimelineTreeWidget
    \<Rightarrow> unit promise \<times> TimelineTreeWidget" where
  "loadTimelineForSource src u reset w =
     (case request_page src u reset w of
        (timeline, None, w1) \<Rightarrow> (Resolved (), w1)
      | (timeline, Some timelineRequest, w1) \<Rightarrow>
          (case result timelineRequest of
             Rejected e \<Rightarrow> (Rejected e, w1)
           | Resolved None \<Rightarrow> (Resolved (), w1)
           | Resolved (Some timelineResult) \<Rightarrow>
               (Resolved (), merge_page src u timeline timelineResult w1)))"

text \<open>
  The loop of \<open>loadTimeLine\<close>: one \<open>loadTimelineForSource\<close> for each source, none awaited;
  the promise of each call is kept here, the source drops it. Each call is run to its end
  before the next starts; in the source the parts after the \<open>await\<close> run later, as the
  requests settle. A call reads and writes the aggregate of its own source only, and the
  sources of a service are distinct.
\<close>

fun loadTimelineForSources :: "string list \<Rightarrow> URI \<Rightarrow> bool \<Rightarrow> TimelineTreeWidget
    \<Rightarrow> unit promise list \<times> TimelineTreeWidget" where
  "loadTimelineForSources [] u reset w = ([], w)"
| "loadTimelineForSources (src # srcs) u reset w =
     (case loadTimelineForSource src u reset w of
        (p, w1) \<Rightarrow> (case loadTimelineForSources srcs u reset w1 of
                      (ps, w2) \<Rightarrow> (p # ps, w2)))"

definition loadTimeLine :: "URI \<Rightarrow> bool \<Rightarrow> TimelineTreeWidget \<Rightarrow> unit promise list \<times> TimelineTreeWidget" where
  "loadTimeLine u reset w =
     loadTimelineForSources (map source_id (getSources (timelineService w))) u reset w"

section \<open>Properties of states\<close>

text \<open>Greatest timestamp first; equal timestamps may follow each other.\<close>

definition sorted_desc :: "TimelineItem list \<Rightarrow> bool" where
  "sorted_desc xs = sorted_wrt (\<lambda>a b. timestamp b \<le> timestamp a) xs"

text \<open>
  The keys of \<open>providers\<close> are distinct, as in a \<open>Map\<close>, and each provider is stored under
  its own id, as \<open>registerTimelineProvider\<close> stores it.
\<close>

definition providers_keyed :: "TimelineService \<Rightarrow> bool" where
  "providers_keyed svc =
     (distinct (map fst (providers svc)) \<and>
      list_all (\<lambda>kp. provider_id (snd kp) = fst kp) (providers svc))"

text \<open>Every item of the aggregate of \<open>src\<close>, when there is one, has \<open>src\<close> as its source.\<close>

definition aggregate_stamped :: "TimelineTreeWidget \<Rightarrow> string \<Rightarrow> bool" where
  "aggregate_stamped w src =
     (case timelinesBySource w src of
        None \<Rightarrow> True
      | Some a \<Rightarrow> list_all (\<lambda>item. item_source item = Some src) (agg_items a))"

section \<open>Example data\<close>

definition item_at :: "string \<Rightarrow> int \<Rightarrow> TimelineItem" where
  "item_at h t =
     \<lparr>handle = h, timestamp = t, label = h, item_id = None, description = None,
      detail = None, command = None, contextValue = None, item_source = None\<rparr>"

definition file_uri :: URI where
  "file_uri = \<lparr>uri_scheme = ''file'', uri_toString = ''file:///a''\<rparr>"

definition http_uri :: URI where
  "http_uri = \<lparr>uri_scheme = ''http'', uri_toString = ''http://a''\<rparr>"

text \<open>
  A provider that answers every call with the same settled promise, and whose \<open>dispose()\<close>
  returns and leaves the event sources as they are.
\<close>

definition provider_of :: "string \<Rightarrow> Scheme \<Rightarrow> nat option \<Rightarrow> Timeline option promise \<Rightarrow> TimelineProvider" where
  "provider_of i s ev r =
     \<lparr>provider_id = i, provider_label = i, scheme = s, onDidChange = ev,
      provideTimeline = (\<lambda>u opts tok. r), dispose = (\<lambda>ls. (Inr (), ls))\<rparr>"

text \<open>
  The provider of the end-to-end scenario: without a cursor it returns the items at 300
  and 100 and the cursor \<open>c1\<close>; with the cursor \<open>c1\<close> the item at 250 and no further cursor.
\<close>

definition paged_provider :: TimelineProvider where
  "paged_provider =
     \<lparr>provider_id = ''A'', provider_label = ''A'', scheme = SchemeString ''file'', onDidChange = None,
      provideTimeline = (\<lambda>u opts tok.
        if cursor opts = None
        then Resolved (Some \<lparr>source = ''A'', paging = Some (Some ''c1''),
                              items = [item_at ''x'' 300, item_at ''z'' 100]\<rparr>)
        else if cursor opts = Some ''c1''
        then Resolved (Some \<lparr>source = ''A'', paging = Some None, items = [item_at ''y'' 250]\<rparr>)
        else Resolved None),
      dispose = (\<lambda>ls. (Inr (), ls))\<rparr>"

text \<open>
  A provider whose first page is not in order of time, and whose later pages are empty
  and carry no paging object.
\<close>

definition unordered_provider :: TimelineProvider where
  "unordered_provider =
     \<lparr>provider_id = ''A'', provider_label = ''A'', scheme = SchemeString ''*'', onDidChange = None,
      provideTimeline = (\<lambda>u opts tok.
        if cursor opts = None
        then Resolved (Some \<lparr>source = ''A'', paging = Some (Some ''c1''),
                              items = [item_at ''z'' 100, item_at ''x'' 300]\<rparr>)
        else Resolved (Some \<lparr>source = ''A'', paging = None, items = []\<rparr>)),
      dispose = (\<lambda>ls. (Inr (), ls))\<rparr>"

definition widget_of :: "TimelineProvider list \<Rightarrow> TimelineTreeWidget" where
  "widget_of ps =
     \<lparr>timelinesBySource = Map.empty,
      timelineService = fold (\<lambda>p svc. snd (registerTimelineProvider p svc)) ps TimelineService_new,
      rendered = []\<rparr>"

text \<open>
  A provider that sets a source of its own on an item, and returns the empty string as
  its cursor.
\<close>

definition spoofed_page :: Timeline where
  "spoofed_page =
     \<lparr>source = ''B'', paging = Some (Some ''''),
      items = [(item_at ''x'' 300)\<lparr>item_source := Some ''B''\<rparr>, item_at ''z'' 100]\<rparr>"

definition spoofing_provider :: TimelineProvider where
  "spoofing_provider = provider_of ''A'' (SchemeString ''file'') None (Resolved (Some spoofed_page))"

text \<open>A provider whose fetch rejects, and one whose scheme is an array.\<close>

definition rejecting_provider :: TimelineProvider where
  "rejecting_provider = provider_of ''B'' (SchemeString ''*'') None (Rejected ''offline'')"

definition array_provider :: TimelineProvider where
  "array_provider = provider_of ''A'' (SchemeArray [''file'']) None (Resolved None)"

text \<open>
  Providers with the same id and an event source each. The \<open>dispose()\<close> of the first throws
  and leaves its event source as it is; that of the third tears its event source down, so
  that no listener is attached to it any more.
\<close>

definition watched_provider :: TimelineProvider where
  "watched_provider =
     (provider_of ''A'' (SchemeString ''file'') (Some 0) (Resolved None))
       \<lparr>dispose := (\<lambda>ls. (Inl ''failed'', ls))\<rparr>"

definition replacement_provider :: TimelineProvider where
  "replacement_provider = provider_of ''A'' (SchemeString ''file'') (Some 1) (Resolved None)"

definition teardown_provider :: TimelineProvider where
  "teardown_provider =
     (provider_of ''A'' (SchemeString ''file'') (Some 0) (Resolved None))
       \<lparr>dispose := (\<lambda>ls. (Inr (), filter (\<lambda>l. fst l \<noteq> 0) ls))\<rparr>"

definition change_event :: TimelineChangeEvent where
  "change_event = \<lparr>event_id = ''A'', event_uri = None, event_reset = False\<rparr>"

text \<open>
  A widget that holds an aggregate for \<open>A\<close> already: the items at 300 and 100, and the
  given cursor.
\<close>

definition seeded_widget :: "TimelineProvider list \<Rightarrow> string option \<Rightarrow> TimelineTreeWidget" where
  "seeded_widget ps c =
     (widget_of ps)\<lparr>timelinesBySource :=
        [''A'' \<mapsto> \<lparr>agg_items = [(item_at ''x'' 300)\<lparr>item_source := Some ''A''\<rparr>,
                                   (item_at ''z'' 100)\<lparr>item_source := Some ''A''\<rparr>],
                      agg_source = ''A'', agg_cursor = c\<rparr>]\<rparr>"

text \<open>A widget that holds an aggregate for \<open>B\<close>, whose provider rejects.\<close>

definition history_widget :: TimelineTreeWidget where
  "history_widget =
     (widget_of [rejecting_provider, paged_provider])\<lparr>timelinesBySource :=
        [''B'' \<mapsto> \<lparr>agg_items = [(item_at ''q'' 50)\<lparr>item_source := Some ''B''\<rparr>],
                      agg_source = ''B'', agg_cursor = Some ''c9''\<rparr>]\<rparr>"

section \<open>Auxiliary facts\<close>

lemmas service_defs = registerTimelineProvider_def Registration_dispose_def unregisterTimelineProvider_def
  call_dispose_def subscribe_def getTimeline_def stamp_def getSources_def TimelineService_new_def

lemmas widget_defs = request_page_def merge_page_def loadTimelineForSource_def
  add_def TimelineAggregate_new_def paging_cursor_def truthy_def PAGE_SIZE_def

lemmas example_defs = item_at_def file_uri_def http_uri_def provider_of_def widget_of_def

lemma sorted_desc_sort_key: "sorted_desc (sort_key (\<lambda>item. - timestamp item) xs)"
proof -
  have "sorted (map (\<lambda>item. - timestamp item) (sort_key (\<lambda>item. - timestamp item) xs))"
    by (rule sorted_sort_key)
  then show ?thesis
    by (simp add: sorted_desc_def sorted_map)
qed

lemma sort_key_sorted_desc: "sorted_desc xs \<Longrightarrow> sort_key (\<lambda>item. - timestamp item) xs = xs"
  by (rule sort_key_id_if_sorted) (simp add: sorted_desc_def sorted_map)

lemma add_sorted: "sorted_desc (agg_items (add new a))"
  by (simp add: add_def sorted_desc_sort_key)

lemma getTimeline_providers: "providers (snd (getTimeline i u opts tok svc)) = providers svc"
  by (simp add: getTimeline_def split: option.splits Scheme.splits)

lemma getTimeline_fst_cong:
  "providers svc = providers svc' \<Longrightarrow>
   fst (getTimeline i u opts tok svc) = fst (getTimeline i u opts tok svc')"
  by (simp add: getTimeline_def split: option.splits Scheme.splits)

lemma providers_keyed_lookup:
  "providers_keyed svc \<Longrightarrow> map_of (providers svc) i = Some p \<Longrightarrow> provider_id p = i"
  by (auto simp: providers_keyed_def list_all_iff dest!: map_of_SomeD)

lemma list_all_update:
  "list_all P al \<Longrightarrow> P (k, v) \<Longrightarrow> list_all P (AList.update k v al)"
  by (induction al) auto

lemma list_all_delete: "list_all P al \<Longrightarrow> list_all P (AList.delete k al)"
  by (induction al) auto

text \<open>
  The operations of the service keep \<open>providers_keyed\<close>, and a new service has it: it
  holds in every state the service reaches.
\<close>

lemma providers_keyed_new: "providers_keyed TimelineService_new"
  by (simp add: providers_keyed_def TimelineService_new_def)

lemma providers_registerTimelineProvider:
  "providers (snd (registerTimelineProvider p svc)) = AList.update (provider_id p) p (providers svc)"
  by (simp add: registerTimelineProvider_def Let_def call_dispose_def subscribe_def
      split: option.splits sum.splits prod.splits)

lemma providers_keyed_register:
  "providers_keyed svc \<Longrightarrow> providers_keyed (snd (registerTimelineProvider p svc))"
  by (simp add: providers_keyed_def providers_registerTimelineProvider distinct_update list_all_update)

lemma providers_keyed_unregister:
  "providers_keyed svc \<Longrightarrow> providers_keyed (unregisterTimelineProvider i svc)"
  by (simp add: providers_keyed_def unregisterTimelineProvider_def distinct_delete list_all_delete)

lemma providers_keyed_Registration_dispose:
  "providers_keyed svc \<Longrightarrow> providers_keyed (Registration_dispose r svc)"
  by (cases r) (simp add: providers_keyed_def Registration_dispose_def distinct_delete list_all_delete)

section \<open>The source stamped on items\<close>

text \<open>
  Claim C4. Every item of a page that \<open>getTimeline\<close> hands back has the id of the provider
  that produced the page as its source, whatever source the provider's own response set.
  Hence, when each provider is registered under its own id, the items of the aggregate of
  a source that carry that source before a \<open>loadTimelineForSource\<close> carry it afterwards:
  the aggregates start empty, so every item of every aggregate has the id of its provider.
\<close>

theorem source_stamped:
  "(fst (getTimeline i u opts tok svc) = Some r \<and> result r = Resolved (Some page) \<longrightarrow>
      (\<exists>p. map_of (providers svc) i = Some p \<and> request_source r = provider_id p \<and>
           list_all (\<lambda>item. item_source item = Some (provider_id p)) (items page))) \<and>
   (providers_keyed (timelineService w) \<and> aggregate_stamped w s \<longrightarrow>
      aggregate_stamped (snd (loadTimelineForSource src u reset w)) s)"
proof (intro conjI impI)
  assume "fst (getTimeline i u opts tok svc) = Some r \<and> result r = Resolved (Some page)"
  then show "\<exists>p. map_of (providers svc) i = Some p \<and> request_source r = provider_id p \<and>
           list_all (\<lambda>item. item_source item = Some (provider_id p)) (items page)"
    by (auto simp: getTimeline_def stamp_def list_all_iff
        split: option.splits if_splits promise.splits Scheme.splits)
next
  assume a: "providers_keyed (timelineService w) \<and> aggregate_stamped w s"
  then have k: "\<And>p. map_of (providers (timelineService w)) src = Some p \<Longrightarrow> provider_id p = src"
    using providers_keyed_lookup by blast
  from a have st: "aggregate_stamped w s" by simp
  show "aggregate_stamped (snd (loadTimelineForSource src u reset w)) s"
    using st k
    by (auto simp: aggregate_stamped_def loadTimelineForSource_def request_page_def merge_page_def
        getTimeline_def stamp_def add_def TimelineAggregate_new_def list_all_iff Let_def
        split: option.splits if_splits promise.splits Scheme.splits prod.splits)
qed

theorem source_stamped_witness:
  "fst (getTimeline ''A'' file_uri \<lparr>cursor = None, limit = None\<rparr> CancellationToken_None
         (timelineService (widget_of [spoofing_provider])))
     = Some \<lparr>result = Resolved (Some (spoofed_page\<lparr>items :=
                 [(item_at ''x'' 300)\<lparr>item_source := Some ''A''\<rparr>,
                  (item_at ''z'' 100)\<lparr>item_source := Some ''A''\<rparr>]\<rparr>)),
             options = \<lparr>cursor = None, limit = None\<rparr>, request_source = ''A'',
             tokenSource = CancellationToken_None, uri = file_uri\<rparr> \<and>
   providers_keyed (timelineService (widget_of [spoofing_provider])) \<and>
   aggregate_stamped (widget_of [spoofing_provider]) ''A'' \<and>
   aggregate_stamped (snd (loadTimelineForSource ''A'' file_uri True (widget_of [spoofing_provider]))) ''A'' \<and>
   map_option (map item_source \<circ> agg_items)
     (timelinesBySource (snd (loadTimelineForSource ''A'' file_uri True (widget_of [spoofing_provider]))) ''A'')
     = Some [Some ''A'', Some ''A'']"
  using source_stamped [where i = "''A''" and u = file_uri and opts = "\<lparr>cursor = None, limit = None\<rparr>"
      and tok = CancellationToken_None and svc = "timelineService (widget_of [spoofing_provider])"
      and r = "\<lparr>result = Resolved (Some (spoofed_page\<lparr>items :=
                 [(item_at ''x'' 300)\<lparr>item_source := Some ''A''\<rparr>,
                  (item_at ''z'' 100)\<lparr>item_source := Some ''A''\<rparr>]\<rparr>)),
             options = \<lparr>cursor = None, limit = None\<rparr>, request_source = ''A'',
             tokenSource = CancellationToken_None, uri = file_uri\<rparr>"
      and page = "spoofed_page\<lparr>items :=
                 [(item_at ''x'' 300)\<lparr>item_source := Some ''A''\<rparr>,
                  (item_at ''z'' 100)\<lparr>item_source := Some ''A''\<rparr>]\<rparr>"
      and w = "widget_of [spoofing_provider]" and s = "''A''" and src = "''A''" and reset = True]
  by (simp add: service_defs widget_defs example_defs
      spoofed_page_def spoofing_provider_def providers_keyed_def
      aggregate_stamped_def Let_def)

section \<open>One call of loadTimelineForSource\<close>

lemma request_page_facts:
  assumes "request_page src u reset w = (timeline, req, w1)"
  shows "timelinesBySource w1 = (if reset then (timelinesBySource w)(src := None) else timelinesBySource w)"
    and "rendered w1 = rendered w"
    and "timeline = timelinesBySource w1 src"
    and "providers (timelineService w1) = providers (timelineService w)"
  using assms
  by (auto simp: request_page_def Let_def getTimeline_def
      split: prod.splits option.splits if_splits Scheme.splits)

text \<open>
  Claim C5. A \<open>loadTimelineForSource\<close> with \<open>reset = true\<close> discards the aggregate of the
  source before it fetches: the local variable \<open>timeline\<close> is undefined and the map has no
  entry for the source when the request is made. A provider that is called receives the
  cursor \<open>undefined\<close> (and the limit \<open>PAGE_SIZE\<close>); no provider is called when the request is
  not applicable. When the request resolves with a page, the aggregate of the source is
  afterwards exactly that page: its items, its source and its cursor, whatever the
  aggregate held before.
\<close>

theorem reset_load_page:
  assumes "request_page src u True w = (timeline, req, w1)"
  shows "timeline = None \<and>
     timelinesBySource w1 = (timelinesBySource w)(src := None) \<and>
     (\<forall>r. req = Some r \<longrightarrow>
        cursor (options r) = None \<and>
        provideTimelineCalls (timelineService w1) =
          provideTimelineCalls (timelineService w) @
            [(request_source r, u, \<lparr>cursor = None, limit = Some (Count PAGE_SIZE)\<rparr>, CancellationToken_None)]) \<and>
     (req = None \<longrightarrow> provideTimelineCalls (timelineService w1) = provideTimelineCalls (timelineService w)) \<and>
     (\<forall>r page. req = Some r \<and> result r = Resolved (Some page) \<longrightarrow>
        timelinesBySource (snd (loadTimelineForSource src u True w)) =
          (timelinesBySource w)(src \<mapsto>
             \<lparr>agg_items = items page, agg_source = source page, agg_cursor = paging_cursor page\<rparr>))"
  using assms
  by (auto simp: request_page_def loadTimelineForSource_def merge_page_def TimelineAggregate_new_def
      Let_def getTimeline_def split: prod.splits option.splits if_splits Scheme.splits)

theorem reset_load_page_witness:
  "fst (request_page ''A'' file_uri True (seeded_widget [paged_provider] (Some ''c9''))) = None \<and>
   provideTimelineCalls (timelineService (snd (snd (request_page ''A'' file_uri True
       (seeded_widget [paged_provider] (Some ''c9''))))))
     = [(''A'', file_uri, \<lparr>cursor = None, limit = Some (Count 20)\<rparr>, CancellationToken_None)] \<and>
   timelinesBySource (snd (loadTimelineForSource ''A'' file_uri True
       (seeded_widget [paged_provider] (Some ''c9'')))) ''A''
     = Some \<lparr>agg_items = [(item_at ''x'' 300)\<lparr>item_source := Some ''A''\<rparr>,
                           (item_at ''z'' 100)\<lparr>item_source := Some ''A''\<rparr>],
             agg_source = ''A'', agg_cursor = Some ''c1''\<rparr>"
  using reset_load_page [of "''A''" file_uri "seeded_widget [paged_provider] (Some ''c9'')"
      "fst (request_page ''A'' file_uri True (seeded_widget [paged_provider] (Some ''c9'')))"
      "fst (snd (request_page ''A'' file_uri True (seeded_widget [paged_provider] (Some ''c9''))))"
      "snd (snd (request_page ''A'' file_uri True (seeded_widget [paged_provider] (Some ''c9''))))"]
  by (simp add: service_defs widget_defs example_defs
      paged_provider_def seeded_widget_def Let_def)

text \<open>
  Claim C8, as stated: the flag passed to \<open>renderTimeline\<close> is true exactly when the cursor
  of the aggregate is defined. It is not: the flag is \<open>!!timeline.cursor\<close>, and a provider
  that returns the empty string as its cursor leaves the aggregate with a defined cursor
  and the flag false.
\<close>

theorem hasMore_counterexample:
  "map_option agg_cursor
     (timelinesBySource (snd (loadTimelineForSource ''A'' file_uri True (widget_of [spoofing_provider]))) ''A'')
     = Some (Some '''') \<and>
   map rendered_hasMore
     (rendered (snd (loadTimelineForSource ''A'' file_uri True (widget_of [spoofing_provider])))) = [False]"
  by (simp add: service_defs widget_defs example_defs
      spoofed_page_def spoofing_provider_def Let_def)

text \<open>
  Claim C8, amended. A \<open>loadTimelineForSource\<close> whose request resolves with a page, with or
  without items, calls \<open>renderTimeline\<close> once, with the items of the aggregate and a flag
  that is true exactly when the cursor of the aggregate after that page is defined and
  not the empty string. When the request is not applicable, or resolves with no result,
  or rejects, nothing is rendered.
\<close>

theorem hasMore_truthy:
  assumes "request_page src u reset w = (timeline, req, w1)"
  shows "((req = None \<or> (\<exists>r e. req = Some r \<and> (result r = Resolved None \<or> result r = Rejected e))) \<longrightarrow>
            rendered (snd (loadTimelineForSource src u reset w)) = rendered w) \<and>
         (\<forall>r page. req = Some r \<and> result r = Resolved (Some page) \<longrightarrow>
            (\<exists>a. timelinesBySource (snd (loadTimelineForSource src u reset w)) src = Some a \<and>
                 agg_cursor a = paging_cursor page \<and>
                 rendered (snd (loadTimelineForSource src u reset w)) = rendered w @
                   [\<lparr>rendered_source = src, rendered_uri = uri_toString u, rendered_items = agg_items a,
                     rendered_hasMore = (agg_cursor a \<noteq> None \<and> agg_cursor a \<noteq> Some [])\<rparr>]))"
  using assms
  by (auto simp: request_page_def loadTimelineForSource_def merge_page_def TimelineAggregate_new_def
      truthy_def Let_def getTimeline_def split: prod.splits option.splits if_splits Scheme.splits)

theorem hasMore_truthy_witness:
  "map rendered_hasMore
     (rendered (snd (loadTimelineForSource ''A'' file_uri True (widget_of [paged_provider])))) = [True] \<and>
   map rendered_hasMore
     (rendered (snd (loadTimelineForSource ''A'' file_uri False
        (seeded_widget [paged_provider] (Some ''c1''))))) = [False] \<and>
   map_option agg_cursor
     (timelinesBySource (snd (loadTimelineForSource ''A'' file_uri False
        (seeded_widget [paged_provider] (Some ''c1'')))) ''A'') = Some None \<and>
   rendered (snd (loadTimelineForSource ''A'' http_uri False
        (seeded_widget [paged_provider] (Some ''c1'')))) = []"
  using hasMore_truthy [of "''A''" file_uri True "widget_of [paged_provider]"
      "fst (request_page ''A'' file_uri True (widget_of [paged_provider]))"
      "fst (snd (request_page ''A'' file_uri True (widget_of [paged_provider])))"
      "snd (snd (request_page ''A'' file_uri True (widget_of [paged_provider])))"]
    hasMore_truthy [of "''A''" file_uri False "seeded_widget [paged_provider] (Some ''c1'')"
      "fst (request_page ''A'' file_uri False (seeded_widget [paged_provider] (Some ''c1'')))"
      "fst (snd (request_page ''A'' file_uri False (seeded_widget [paged_provider] (Some ''c1''))))"
      "snd (snd (request_page ''A'' file_uri False (seeded_widget [paged_provider] (Some ''c1''))))"]
    hasMore_truthy [of "''A''" http_uri False "seeded_widget [paged_provider] (Some ''c1'')"
      "fst (request_page ''A'' http_uri False (seeded_widget [paged_provider] (Some ''c1'')))"
      "fst (snd (request_page ''A'' http_uri False (seeded_widget [paged_provider] (Some ''c1''))))"
      "snd (snd (request_page ''A'' http_uri False (seeded_widget [paged_provider] (Some ''c1''))))"]
  by (simp add: service_defs widget_defs example_defs
      paged_provider_def seeded_widget_def Let_def)

section \<open>The loop over the sources\<close>

lemma load_other:
  "s \<noteq> src \<Longrightarrow> timelinesBySource (snd (loadTimelineForSource src u r w)) s = timelinesBySource w s"
  by (auto simp: request_page_def loadTimelineForSource_def merge_page_def
      Let_def split: prod.splits option.splits promise.splits)

lemma load_providers:
  "providers (timelineService (snd (loadTimelineForSource src u r w))) = providers (timelineService w)"
  by (auto simp: request_page_def loadTimelineForSource_def merge_page_def getTimeline_def
      Let_def split: prod.splits option.splits promise.splits if_splits Scheme.splits)

text \<open>
  What a call does to the aggregate of its source, and how it settles, depends on the
  registered providers and on that aggregate only.
\<close>

lemma load_local:
  assumes "providers (timelineService w) = providers (timelineService w')"
    and "timelinesBySource w src = timelinesBySource w' src"
  shows "timelinesBySource (snd (loadTimelineForSource src u r w)) src
           = timelinesBySource (snd (loadTimelineForSource src u r w')) src"
    and "fst (loadTimelineForSource src u r w) = fst (loadTimelineForSource src u r w')"
  using assms
  by (auto simp: request_page_def loadTimelineForSource_def merge_page_def getTimeline_def
      Let_def split: prod.splits option.splits promise.splits if_splits Scheme.splits)

lemma loads_Cons:
  "snd (loadTimelineForSources (s # srcs) u r w)
     = snd (loadTimelineForSources srcs u r (snd (loadTimelineForSource s u r w)))"
  "fst (loadTimelineForSources (s # srcs) u r w)
     = fst (loadTimelineForSource s u r w)
       # fst (loadTimelineForSources srcs u r (snd (loadTimelineForSource s u r w)))"
  by (simp_all split: prod.splits)

lemma loads_other:
  "src \<notin> set srcs \<Longrightarrow>
   timelinesBySource (snd (loadTimelineForSources srcs u r w)) src = timelinesBySource w src"
  by (induction srcs arbitrary: w)
    (simp_all add: loads_Cons load_other del: loadTimelineForSources.simps(2))

lemma loads_each:
  "distinct srcs \<Longrightarrow> src \<in> set srcs \<Longrightarrow>
   timelinesBySource (snd (loadTimelineForSources srcs u r w)) src
     = timelinesBySource (snd (loadTimelineForSource src u r w)) src"
proof (induction srcs arbitrary: w)
  case Nil
  then show ?case by simp
next
  case (Cons s srcs)
  obtain p w1 where l: "loadTimelineForSource s u r w = (p, w1)"
    by (cases "loadTimelineForSource s u r w")
  show ?case
  proof (cases "src = s")
    case True
    with Cons.prems have "src \<notin> set srcs" by simp
    then show ?thesis
      using l True loads_other [of src srcs u r w1]
      by (simp add: loads_Cons del: loadTimelineForSources.simps(2))
  next
    case False
    with Cons.prems have m: "src \<in> set srcs" and d: "distinct srcs" by simp_all
    have pw: "providers (timelineService w1) = providers (timelineService w)"
      using load_providers [of s u r w] l by simp
    have sw: "timelinesBySource w1 src = timelinesBySource w src"
      using load_other [of src s u r w] False l by simp
    have "timelinesBySource (snd (loadTimelineForSources srcs u r w1)) src
            = timelinesBySource (snd (loadTimelineForSource src u r w1)) src"
      using Cons.IH [OF d m] .
    also have "\<dots> = timelinesBySource (snd (loadTimelineForSource src u r w)) src"
      using load_local(1) [OF pw sw] .
    finally show ?thesis
      using l by (simp add: loads_Cons del: loadTimelineForSources.simps(2))
  qed
qed

lemma loads_outcomes:
  "distinct srcs \<Longrightarrow>
   fst (loadTimelineForSources srcs u r w) = map (\<lambda>s. fst (loadTimelineForSource s u r w)) srcs"
proof (induction srcs arbitrary: w)
  case Nil
  then show ?case by simp
next
  case (Cons s srcs)
  obtain p w1 where l: "loadTimelineForSource s u r w = (p, w1)"
    by (cases "loadTimelineForSource s u r w")
  have pw: "providers (timelineService w1) = providers (timelineService w)"
    using load_providers [of s u r w] l by simp
  have "fst (loadTimelineForSources srcs u r w1) = map (\<lambda>x. fst (loadTimelineForSource x u r w1)) srcs"
    using Cons.IH [of w1] Cons.prems by simp
  also have "\<dots> = map (\<lambda>x. fst (loadTimelineForSource x u r w)) srcs"
  proof (rule map_cong [OF refl])
    fix x assume "x \<in> set srcs"
    with Cons.prems have "x \<noteq> s" by auto
    then have "timelinesBySource w1 x = timelinesBySource w x"
      using load_other [of x s u r w] l by simp
    then show "fst (loadTimelineForSource x u r w1) = fst (loadTimelineForSource x u r w)"
      using load_local(2) [OF pw] by blast
  qed
  finally show ?case
    using l by (simp add: loads_Cons del: loadTimelineForSources.simps(2))
qed

lemma keyed_sources:
  "providers_keyed svc \<Longrightarrow> map source_id (getSources svc) = map fst (providers svc)"
  by (simp add: providers_keyed_def getSources_def list_all_iff)

text \<open>
  Claim C9. When the fetch of a provider rejects, the promise of the request that
  \<open>getTimeline\<close> returns rejects with the same reason, and so does the
  \<open>loadTimelineForSource\<close> that awaits it. That call leaves the widget as it was when the
  request was made: nothing is rendered, and the aggregates are those before the call,
  less the aggregate of the source when the call itself was one with \<open>reset = true\<close>, which
  had discarded it before fetching. In \<open>loadTimeLine\<close> every registered provider gets its
  call: each call settles as it would alone, and leaves the aggregate of its source as it
  would alone, whatever the fetches of the other providers did.
\<close>

theorem rejection_contained:
  "(map_of (providers svc) i = Some p \<and> fst (getTimeline i u opts tok svc) = Some r \<and>
      provideTimeline p u opts tok = Rejected e \<longrightarrow> result r = Rejected e) \<and>
   (request_page src u reset w = (timeline, Some r', w1) \<and> result r' = Rejected e \<longrightarrow>
      loadTimelineForSource src u reset w = (Rejected e, w1) \<and>
      timelinesBySource w1 = (if reset then (timelinesBySource w)(src := None) else timelinesBySource w) \<and>
      rendered w1 = rendered w) \<and>
   (providers_keyed (timelineService w) \<longrightarrow>
      fst (loadTimeLine u reset w)
        = map (\<lambda>kp. fst (loadTimelineForSource (fst kp) u reset w)) (providers (timelineService w)) \<and>
      (\<forall>kp \<in> set (providers (timelineService w)).
         timelinesBySource (snd (loadTimeLine u reset w)) (fst kp)
           = timelinesBySource (snd (loadTimelineForSource (fst kp) u reset w)) (fst kp)))"
proof (intro conjI impI)
  assume "map_of (providers svc) i = Some p \<and> fst (getTimeline i u opts tok svc) = Some r \<and>
      provideTimeline p u opts tok = Rejected e"
  then show "result r = Rejected e"
    by (auto simp: getTimeline_def stamp_def split: if_splits Scheme.splits)
next
  assume a: "request_page src u reset w = (timeline, Some r', w1) \<and> result r' = Rejected e"
  then show "loadTimelineForSource src u reset w = (Rejected e, w1)"
    by (simp add: loadTimelineForSource_def)
  from a show "timelinesBySource w1 = (if reset then (timelinesBySource w)(src := None) else timelinesBySource w)"
    using request_page_facts(1) by blast
  from a show "rendered w1 = rendered w"
    using request_page_facts(2) by blast
next
  assume k: "providers_keyed (timelineService w)"
  then have d: "distinct (map fst (providers (timelineService w)))"
    by (simp add: providers_keyed_def)
  have s: "map source_id (getSources (timelineService w)) = map fst (providers (timelineService w))"
    using k by (rule keyed_sources)
  show "fst (loadTimeLine u reset w)
        = map (\<lambda>kp. fst (loadTimelineForSource (fst kp) u reset w)) (providers (timelineService w))"
    using loads_outcomes [OF d, of u reset w] by (simp add: loadTimeLine_def s comp_def)
  show "\<forall>kp \<in> set (providers (timelineService w)).
         timelinesBySource (snd (loadTimeLine u reset w)) (fst kp)
           = timelinesBySource (snd (loadTimelineForSource (fst kp) u reset w)) (fst kp)"
    using loads_each [OF d, of _ u reset w] by (simp add: loadTimeLine_def s)
qed

theorem rejection_contained_witness:
  "providers_keyed (timelineService history_widget) \<and>
   map_of (providers (timelineService history_widget)) ''B'' = Some rejecting_provider \<and>
   map_option result (fst (snd (request_page ''B'' file_uri False history_widget))) = Some (Rejected ''offline'') \<and>
   fst (loadTimelineForSource ''B'' file_uri False history_widget) = Rejected ''offline'' \<and>
   timelinesBySource (snd (loadTimelineForSource ''B'' file_uri False history_widget))
     = timelinesBySource history_widget \<and>
   fst (loadTimeLine file_uri False history_widget) = [Rejected ''offline'', Resolved ()] \<and>
   timelinesBySource (snd (loadTimeLine file_uri False history_widget)) ''B''
     = timelinesBySource history_widget ''B'' \<and>
   map_option (map timestamp \<circ> agg_items)
     (timelinesBySource (snd (loadTimeLine file_uri False history_widget)) ''A'') = Some [300, 100]"
  using rejection_contained [where svc = "timelineService history_widget" and i = "''B''"
      and p = rejecting_provider and u = file_uri
      and opts = "\<lparr>cursor = Some ''c9'', limit = Some (Count PAGE_SIZE)\<rparr>"
      and tok = CancellationToken_None
      and r = "the (fst (getTimeline ''B'' file_uri \<lparr>cursor = Some ''c9'', limit = Some (Count PAGE_SIZE)\<rparr>
                 CancellationToken_None (timelineService history_widget)))"
      and e = "''offline''" and src = "''B''" and reset = False and w = history_widget
      and timeline = "fst (request_page ''B'' file_uri False history_widget)"
      and r' = "the (fst (snd (request_page ''B'' file_uri False history_widget)))"
      and ?w1.0 = "snd (snd (request_page ''B'' file_uri False history_widget))"]
  by (simp add: service_defs widget_defs example_defs
      loadTimeLine_def rejecting_provider_def paged_provider_def history_widget_def providers_keyed_def Let_def)

section \<open>The order of an aggregate\<close>

text \<open>
  A page appended to an aggregate: \<open>add\<close> sorts, so the items are in descending order of
  time afterwards, and they are the items held before together with those of the page.
\<close>

lemma appended_page_sorted:
  assumes "timelinesBySource w src = Some a"
    and "request_page src u False w = (timeline, Some r, w1)"
    and "result r = Resolved (Some page)"
  shows "\<exists>a'. timelinesBySource (snd (loadTimelineForSource src u False w)) src = Some a' \<and>
              sorted_desc (agg_items a') \<and>
              mset (agg_items a') = mset (agg_items a) + mset (items page)"
  using assms
  by (auto simp: request_page_def loadTimelineForSource_def merge_page_def add_def
      sorted_desc_sort_key Let_def getTimeline_def
      split: prod.splits option.splits if_splits Scheme.splits)

text \<open>
  The scenario of two pages: the first load, with reset, holds the items at 300 and 100
  and the cursor \<open>c1\<close>; the second adds the item at 250 between them and leaves no cursor.
\<close>

lemma end_to_end_scenario:
  "timelinesBySource (snd (loadTimelineForSource ''A'' file_uri True (widget_of [paged_provider]))) ''A''
     = Some \<lparr>agg_items = [(item_at ''x'' 300)\<lparr>item_source := Some ''A''\<rparr>,
                           (item_at ''z'' 100)\<lparr>item_source := Some ''A''\<rparr>],
             agg_source = ''A'', agg_cursor = Some ''c1''\<rparr> \<and>
   timelinesBySource (snd (loadTimelineForSource ''A'' file_uri False
       (snd (loadTimelineForSource ''A'' file_uri True (widget_of [paged_provider]))))) ''A''
     = Some \<lparr>agg_items = [(item_at ''x'' 300)\<lparr>item_source := Some ''A''\<rparr>,
                           (item_at ''y'' 250)\<lparr>item_source := Some ''A''\<rparr>,
                           (item_at ''z'' 100)\<lparr>item_source := Some ''A''\<rparr>],
             agg_source = ''A'', agg_cursor = None\<rparr> \<and>
   map rendered_hasMore (rendered (snd (loadTimelineForSource ''A'' file_uri False
       (snd (loadTimelineForSource ''A'' file_uri True (widget_of [paged_provider])))))) = [True, False]"
  by (simp add: service_defs widget_defs example_defs paged_provider_def Let_def)

text \<open>
  Claim C1 says that the items of an aggregate are in descending order of time after
  every \<open>loadTimelineForSource\<close>, the first included. The constructor of
  \<open>TimelineAggregate\<close> takes the items of the first page as they are, and only \<open>add\<close> sorts:
  a provider whose first page holds the item at 100 before the item at 300 leaves the
  aggregate in that order.
\<close>

theorem first_page_not_sorted:
  "map_option (map timestamp \<circ> agg_items)
     (timelinesBySource (snd (loadTimelineForSource ''A'' file_uri True (widget_of [unordered_provider]))) ''A'')
     = Some [100, 300] \<and>
   map_option (sorted_desc \<circ> agg_items)
     (timelinesBySource (snd (loadTimelineForSource ''A'' file_uri True (widget_of [unordered_provider]))) ''A'')
     = Some False"
  by (simp add: service_defs widget_defs example_defs
      unordered_provider_def sorted_desc_def Let_def)

text \<open>
  Claim C2, as stated: a fetch that returns no items leaves the items of an existing
  aggregate unchanged, and its cursor too unless the response carried a cursor. It does
  not: the aggregate seeded above holds the items at 100 and 300 and the cursor \<open>c1\<close>; the
  next page has no items and no paging object; after it the items are at 300 and 100 and
  the cursor is undefined.
\<close>

theorem empty_page_counterexample:
  "timelinesBySource (snd (loadTimelineForSource ''A'' file_uri True (widget_of [unordered_provider]))) ''A''
     = Some \<lparr>agg_items = [(item_at ''z'' 100)\<lparr>item_source := Some ''A''\<rparr>,
                           (item_at ''x'' 300)\<lparr>item_source := Some ''A''\<rparr>],
             agg_source = ''A'', agg_cursor = Some ''c1''\<rparr> \<and>
   provideTimeline unordered_provider file_uri \<lparr>cursor = Some ''c1'', limit = Some (Count PAGE_SIZE)\<rparr>
       CancellationToken_None
     = Resolved (Some \<lparr>source = ''A'', paging = None, items = []\<rparr>) \<and>
   timelinesBySource (snd (loadTimelineForSource ''A'' file_uri False
        (snd (loadTimelineForSource ''A'' file_uri True (widget_of [unordered_provider]))))) ''A''
     = Some \<lparr>agg_items = [(item_at ''x'' 300)\<lparr>item_source := Some ''A''\<rparr>,
                           (item_at ''z'' 100)\<lparr>item_source := Some ''A''\<rparr>],
             agg_source = ''A'', agg_cursor = None\<rparr>"
  by (simp add: service_defs widget_defs example_defs
      unordered_provider_def Let_def)

text \<open>
  Claim C2, amended. Let the source have an aggregate, and let \<open>loadTimelineForSource\<close> be
  called without reset. When the request is not applicable or resolves with no result,
  no aggregate changes and nothing is rendered. When it resolves with a page without
  items, the cursor of the aggregate becomes the cursor of the page, which is undefined
  when the page has no paging object, whatever the order of the items; the source of the
  aggregate stays, no other aggregate changes, and the items stay as they are when they
  are in descending order of time.
\<close>

theorem empty_page_frame:
  assumes "timelinesBySource w src = Some a"
    and "request_page src u False w = (timeline, req, w1)"
  shows "((req = None \<or> (\<exists>r. req = Some r \<and> result r = Resolved None)) \<longrightarrow>
            timelinesBySource (snd (loadTimelineForSource src u False w)) = timelinesBySource w \<and>
            rendered (snd (loadTimelineForSource src u False w)) = rendered w) \<and>
         (\<forall>r page. req = Some r \<and> result r = Resolved (Some page) \<and> items page = [] \<longrightarrow>
            (\<exists>a'. timelinesBySource (snd (loadTimelineForSource src u False w))
                    = (timelinesBySource w)(src \<mapsto> a') \<and>
                  agg_cursor a' = paging_cursor page \<and>
                  agg_source a' = agg_source a \<and>
                  (sorted_desc (agg_items a) \<longrightarrow> agg_items a' = agg_items a)) \<and>
            (paging page = None \<longrightarrow> paging_cursor page = None))"
proof (intro conjI allI impI)
  assume "req = None \<or> (\<exists>r. req = Some r \<and> result r = Resolved None)"
  then show "timelinesBySource (snd (loadTimelineForSource src u False w)) = timelinesBySource w"
    and "rendered (snd (loadTimelineForSource src u False w)) = rendered w"
    using assms
    by (auto simp: request_page_def loadTimelineForSource_def Let_def getTimeline_def
        split: prod.splits option.splits if_splits Scheme.splits)
next
  fix r page
  assume p: "req = Some r \<and> result r = Resolved (Some page) \<and> items page = []"
  let ?a' = "(add [] a)\<lparr>agg_cursor := paging_cursor page\<rparr>"
  have "timelinesBySource (snd (loadTimelineForSource src u False w))
          = (timelinesBySource w)(src \<mapsto> ?a')"
    using assms p
    by (auto simp: request_page_def loadTimelineForSource_def merge_page_def Let_def getTimeline_def
        split: prod.splits option.splits if_splits Scheme.splits)
  moreover have "agg_cursor ?a' = paging_cursor page" and "agg_source ?a' = agg_source a"
    by (simp_all add: add_def)
  moreover have "sorted_desc (agg_items a) \<longrightarrow> agg_items ?a' = agg_items a"
    by (simp add: add_def sort_key_sorted_desc)
  ultimately show "\<exists>a'. timelinesBySource (snd (loadTimelineForSource src u False w))
                    = (timelinesBySource w)(src \<mapsto> a') \<and>
                  agg_cursor a' = paging_cursor page \<and>
                  agg_source a' = agg_source a \<and>
                  (sorted_desc (agg_items a) \<longrightarrow> agg_items a' = agg_items a)"
    by blast
next
  fix r :: TimelineRequest and page :: Timeline
  assume "paging page = None"
  then show "paging_cursor page = None"
    by (simp add: paging_cursor_def)
qed

theorem empty_page_frame_witness:
  "timelinesBySource (seeded_widget [paged_provider] (Some ''c1'')) ''A'' \<noteq> None \<and>
   fst (snd (request_page ''A'' http_uri False (seeded_widget [paged_provider] (Some ''c1'')))) = None \<and>
   timelinesBySource (snd (loadTimelineForSource ''A'' http_uri False (seeded_widget [paged_provider] (Some ''c1''))))
     = timelinesBySource (seeded_widget [paged_provider] (Some ''c1'')) \<and>
   map_option result (fst (snd (request_page ''A'' file_uri False (seeded_widget [paged_provider] (Some ''c7'')))))
     = Some (Resolved None) \<and>
   timelinesBySource (snd (loadTimelineForSource ''A'' file_uri False (seeded_widget [paged_provider] (Some ''c7''))))
     = timelinesBySource (seeded_widget [paged_provider] (Some ''c7'')) \<and>
   map_option result (fst (snd (request_page ''A'' file_uri False (seeded_widget [unordered_provider] (Some ''c1'')))))
     = Some (Resolved (Some \<lparr>source = ''A'', paging = None, items = []\<rparr>)) \<and>
   timelinesBySource (snd (loadTimelineForSource ''A'' file_uri False
        (seeded_widget [unordered_provider] (Some ''c1'')))) ''A''
     = Some \<lparr>agg_items = [(item_at ''x'' 300)\<lparr>item_source := Some ''A''\<rparr>,
                           (item_at ''z'' 100)\<lparr>item_source := Some ''A''\<rparr>],
             agg_source = ''A'', agg_cursor = None\<rparr> \<and>
   map_option (sorted_desc \<circ> agg_items)
     (timelinesBySource (snd (loadTimelineForSource ''A'' file_uri True (widget_of [unordered_provider]))) ''A'')
     = Some False \<and>
   map_option agg_cursor
     (timelinesBySource (snd (loadTimelineForSource ''A'' file_uri True (widget_of [unordered_provider]))) ''A'')
     = Some (Some ''c1'') \<and>
   map_option agg_cursor
     (timelinesBySource (snd (loadTimelineForSource ''A'' file_uri False
        (snd (loadTimelineForSource ''A'' file_uri True (widget_of [unordered_provider]))))) ''A'')
     = Some None"
  using empty_page_frame [where w = "seeded_widget [paged_provider] (Some ''c1'')" and src = "''A''"
      and u = http_uri
      and a = "the (timelinesBySource (seeded_widget [paged_provider] (Some ''c1'')) ''A'')"
      and timeline = "fst (request_page ''A'' http_uri False (seeded_widget [paged_provider] (Some ''c1'')))"
      and req = "fst (snd (request_page ''A'' http_uri False (seeded_widget [paged_provider] (Some ''c1''))))"
      and ?w1.0 = "snd (snd (request_page ''A'' http_uri False (seeded_widget [paged_provider] (Some ''c1''))))"]
    empty_page_frame [where w = "seeded_widget [paged_provider] (Some ''c7'')" and src = "''A''"
      and u = file_uri
      and a = "the (timelinesBySource (seeded_widget [paged_provider] (Some ''c7'')) ''A'')"
      and timeline = "fst (request_page ''A'' file_uri False (seeded_widget [paged_provider] (Some ''c7'')))"
      and req = "fst (snd (request_page ''A'' file_uri False (seeded_widget [paged_provider] (Some ''c7''))))"
      and ?w1.0 = "snd (snd (request_page ''A'' file_uri False (seeded_widget [paged_provider] (Some ''c7''))))"]
    empty_page_frame [where w = "seeded_widget [unordered_provider] (Some ''c1'')" and src = "''A''"
      and u = file_uri
      and a = "the (timelinesBySource (seeded_widget [unordered_provider] (Some ''c1'')) ''A'')"
      and timeline = "fst (request_page ''A'' file_uri False (seeded_widget [unordered_provider] (Some ''c1'')))"
      and req = "fst (snd (request_page ''A'' file_uri False (seeded_widget [unordered_provider] (Some ''c1''))))"
      and ?w1.0 = "snd (snd (request_page ''A'' file_uri False (seeded_widget [unordered_provider] (Some ''c1''))))"]
    empty_page_frame [where w = "snd (loadTimelineForSource ''A'' file_uri True (widget_of [unordered_provider]))"
      and src = "''A''" and u = file_uri
      and a = "the (timelinesBySource
                 (snd (loadTimelineForSource ''A'' file_uri True (widget_of [unordered_provider]))) ''A'')"
      and timeline = "fst (request_page ''A'' file_uri False
                 (snd (loadTimelineForSource ''A'' file_uri True (widget_of [unordered_provider]))))"
      and req = "fst (snd (request_page ''A'' file_uri False
                 (snd (loadTimelineForSource ''A'' file_uri True (widget_of [unordered_provider])))))"
      and ?w1.0 = "snd (snd (request_page ''A'' file_uri False
                 (snd (loadTimelineForSource ''A'' file_uri True (widget_of [unordered_provider])))))"]
  by (simp add: service_defs widget_defs example_defs
      paged_provider_def unordered_provider_def seeded_widget_def sorted_desc_def Let_def)

section \<open>Providers that do not apply\<close>

text \<open>
  \<open>getTimeline\<close> returns undefined, and calls no provider, when the id is not registered,
  and when the scheme of the provider is a string other than the wildcard and other than
  the scheme of the URI.
\<close>

lemma getTimeline_not_applicable:
  "map_of (providers svc) i = None \<or>
   (\<exists>p s. map_of (providers svc) i = Some p \<and> scheme p = SchemeString s \<and> s \<noteq> ''*'' \<and> s \<noteq> uri_scheme u)
   \<Longrightarrow> getTimeline i u opts tok svc = (None, svc)"
  by (auto simp: getTimeline_def)

text \<open>
  Claim C3 says the same of every set of schemes that neither is the wildcard nor
  contains the scheme of the URI. A provider may give its schemes as an array, and
  \<open>getTimeline\<close> checks the scheme only when it is a string: the provider with the schemes
  \<open>[file]\<close> is called for a URI of scheme \<open>http\<close>, and a request is returned.
\<close>

theorem array_scheme_invoked:
  "scheme array_provider = SchemeArray [''file''] \<and> uri_scheme http_uri = ''http'' \<and>
   map_option request_source
     (fst (getTimeline ''A'' http_uri \<lparr>cursor = None, limit = None\<rparr> CancellationToken_None
        (timelineService (widget_of [array_provider])))) = Some ''A'' \<and>
   provideTimelineCalls
     (snd (getTimeline ''A'' http_uri \<lparr>cursor = None, limit = None\<rparr> CancellationToken_None
        (timelineService (widget_of [array_provider]))))
     = [(''A'', http_uri, \<lparr>cursor = None, limit = None\<rparr>, CancellationToken_None)]"
  by (simp add: service_defs widget_defs example_defs
      array_provider_def Let_def)

section \<open>Registration\<close>

text \<open>
  Claim C10. The object that \<open>registerTimelineProvider\<close> returns holds the id of the
  provider and nothing else. Its \<open>dispose\<close> deletes whatever provider is registered under
  that id and fires a \<open>removed\<close> event for the id, in every state of the service: a second
  call fires a second event, and the object of a first registration removes the provider
  that a later registration stored under the same id.
\<close>

theorem Registration_dispose_unconditional:
  "fst (registerTimelineProvider p svc) = Registration (provider_id p) \<and>
   providers (Registration_dispose (Registration i) svc) = AList.delete i (providers svc) \<and>
   map_of (providers (Registration_dispose (Registration i) svc)) i = None \<and>
   providersFired (Registration_dispose (Registration i) svc)
     = providersFired svc @ [\<lparr>added = None, removed = Some [i]\<rparr>] \<and>
   providersFired (Registration_dispose (Registration i) (Registration_dispose (Registration i) svc))
     = providersFired svc @ [\<lparr>added = None, removed = Some [i]\<rparr>, \<lparr>added = None, removed = Some [i]\<rparr>] \<and>
   map_of (providers (snd (registerTimelineProvider (q\<lparr>provider_id := provider_id p\<rparr>)
       (snd (registerTimelineProvider p svc))))) (provider_id p) = Some (q\<lparr>provider_id := provider_id p\<rparr>) \<and>
   map_of (providers (Registration_dispose (fst (registerTimelineProvider p svc))
     (snd (registerTimelineProvider (q\<lparr>provider_id := provider_id p\<rparr>)
       (snd (registerTimelineProvider p svc)))))) (provider_id p) = None"
  by (simp add: registerTimelineProvider_def Registration_dispose_def Let_def call_dispose_def subscribe_def
      AList.update_conv' AList.delete_conv' split: option.splits prod.splits sum.splits)

theorem Registration_dispose_unconditional_witness:
  "fst (registerTimelineProvider watched_provider TimelineService_new) = Registration ''A'' \<and>
   map fst (providers (snd (registerTimelineProvider replacement_provider
       (snd (registerTimelineProvider watched_provider TimelineService_new))))) = [''A''] \<and>
   providers (Registration_dispose (fst (registerTimelineProvider watched_provider TimelineService_new))
     (snd (registerTimelineProvider replacement_provider
       (snd (registerTimelineProvider watched_provider TimelineService_new))))) = [] \<and>
   providersFired (Registration_dispose (Registration ''A'') (Registration_dispose (Registration ''A'')
     (snd (registerTimelineProvider watched_provider TimelineService_new))))
     = [\<lparr>added = Some [''A''], removed = None\<rparr>, \<lparr>added = None, removed = Some [''A'']\<rparr>,
        \<lparr>added = None, removed = Some [''A'']\<rparr>]"
  using Registration_dispose_unconditional [of watched_provider TimelineService_new "''A''" replacement_provider]
  by (simp add: service_defs example_defs
      watched_provider_def replacement_provider_def Let_def)

text \<open>
  Claim C6, as stated: registering a provider under an id that is registered removes the
  subscription of the earlier provider, so that its events are no longer delivered. The
  service never disposes a subscription; it calls the \<open>dispose()\<close> of the earlier provider
  and nothing more. When that \<open>dispose()\<close> leaves the provider's event source as it is, as
  the one here does, the listener of the first registration is still attached after the
  second, and an event of the first provider's event source is still fired on
  \<open>onDidChangeTimelineEmitter\<close>.
\<close>

theorem replaced_subscription_counterexample:
  "listeners (snd (registerTimelineProvider replacement_provider
       (snd (registerTimelineProvider watched_provider TimelineService_new)))) = [(0, 0), (1, 1)] \<and>
   disposed (snd (registerTimelineProvider replacement_provider
       (snd (registerTimelineProvider watched_provider TimelineService_new)))) = [watched_provider] \<and>
   timelineFired (fire_onDidChange 0 change_event (snd (registerTimelineProvider replacement_provider
       (snd (registerTimelineProvider watched_provider TimelineService_new))))) = [change_event]"
  by (simp add: service_defs example_defs
      watched_provider_def replacement_provider_def change_event_def fire_onDidChange_def Let_def)

text \<open>
  Claim C6, amended. Registering a provider under an id that is registered calls the
  \<open>dispose()\<close> of the earlier provider, whether or not that call throws, stores the new
  provider under the id at the place of the earlier one, and fires exactly one \<open>added\<close>
  event for the id and no timeline event. The service itself does not dispose the
  subscription of the earlier provider: the listeners attached afterwards are those that
  the earlier provider's own \<open>dispose()\<close> left attached, and one more when the new provider
  has an event source. The entry of the id in \<open>providerSubscriptions\<close> is then the new
  subscription, and otherwise still the earlier one.
\<close>

theorem register_duplicate:
  assumes "map_of (providers svc) (provider_id p) = Some ex"
  shows "disposed (snd (registerTimelineProvider p svc)) = disposed svc @ [ex] \<and>
     map_of (providers (snd (registerTimelineProvider p svc))) (provider_id p) = Some p \<and>
     map fst (providers (snd (registerTimelineProvider p svc))) = map fst (providers svc) \<and>
     providersFired (snd (registerTimelineProvider p svc))
       = providersFired svc @ [\<lparr>added = Some [provider_id p], removed = None\<rparr>] \<and>
     timelineFired (snd (registerTimelineProvider p svc)) = timelineFired svc \<and>
     listeners (snd (registerTimelineProvider p svc))
       = snd (dispose ex (listeners svc))
         @ (case onDidChange p of None \<Rightarrow> [] | Some ev \<Rightarrow> [(ev, nextListener svc)]) \<and>
     providerSubscriptions (snd (registerTimelineProvider p svc)) (provider_id p)
       = (case onDidChange p of
            None \<Rightarrow> providerSubscriptions svc (provider_id p)
          | Some ev \<Rightarrow> Some (Subscription ev (nextListener svc)))"
proof -
  from assms have "provider_id p \<in> set (map fst (providers svc))"
    by (auto dest!: map_of_SomeD intro: rev_image_eqI)
  then have "map fst (AList.update (provider_id p) p (providers svc)) = map fst (providers svc)"
    by (simp add: update_keys)
  then show ?thesis
    using assms
    by (simp add: registerTimelineProvider_def Let_def call_dispose_def subscribe_def
        AList.update_conv' split: option.splits sum.splits prod.splits)
qed

theorem register_duplicate_witness:
  "map_of (providers (snd (registerTimelineProvider watched_provider TimelineService_new))) ''A''
     = Some watched_provider \<and>
   dispose watched_provider [(0, 0)] = (Inl ''failed'', [(0, 0)]) \<and>
   disposed (snd (registerTimelineProvider replacement_provider
       (snd (registerTimelineProvider watched_provider TimelineService_new)))) = [watched_provider] \<and>
   providers (snd (registerTimelineProvider replacement_provider
       (snd (registerTimelineProvider watched_provider TimelineService_new)))) = [(''A'', replacement_provider)] \<and>
   providersFired (snd (registerTimelineProvider replacement_provider
       (snd (registerTimelineProvider watched_provider TimelineService_new))))
     = [\<lparr>added = Some [''A''], removed = None\<rparr>, \<lparr>added = Some [''A''], removed = None\<rparr>] \<and>
   listeners (snd (registerTimelineProvider replacement_provider
       (snd (registerTimelineProvider watched_provider TimelineService_new)))) = [(0, 0), (1, 1)] \<and>
   providerSubscriptions (snd (registerTimelineProvider replacement_provider
       (snd (registerTimelineProvider watched_provider TimelineService_new)))) ''A'' = Some (Subscription 1 1) \<and>
   map_of (providers (snd (registerTimelineProvider teardown_provider TimelineService_new))) ''A''
     = Some teardown_provider \<and>
   dispose teardown_provider [(0, 0)] = (Inr (), []) \<and>
   listeners (snd (registerTimelineProvider replacement_provider
       (snd (registerTimelineProvider teardown_provider TimelineService_new)))) = [(1, 1)]"
  using register_duplicate [of "snd (registerTimelineProvider watched_provider TimelineService_new)"
      replacement_provider watched_provider]
    register_duplicate [of "snd (registerTimelineProvider teardown_provider TimelineService_new)"
      replacement_provider teardown_provider]
  by (simp add: service_defs example_defs
      watched_provider_def replacement_provider_def teardown_provider_def Let_def)

text \<open>
  Claim C7, as stated: the subscription of a provider is disposed exactly once, when the
  provider is unregistered or replaced. \<open>unregisterTimelineProvider\<close> deletes the entry of
  the id from \<open>providerSubscriptions\<close> and disposes nothing: the listener that disposing
  the subscription would remove is still attached afterwards, and an event of the
  provider's event source is still fired on \<open>onDidChangeTimelineEmitter\<close>. A replacing
  registration overwrites the entry and disposes no subscription either: when the
  \<open>dispose()\<close> of the replaced provider leaves its event source as it is, the listener of
  the replaced provider is still attached.
\<close>

theorem unregister_subscription_counterexample:
  "providerSubscriptions (snd (registerTimelineProvider watched_provider TimelineService_new)) ''A''
     = Some (Subscription 0 0) \<and>
   providers (unregisterTimelineProvider ''A'' (snd (registerTimelineProvider watched_provider TimelineService_new))) = [] \<and>
   providerSubscriptions (unregisterTimelineProvider ''A''
       (snd (registerTimelineProvider watched_provider TimelineService_new))) ''A'' = None \<and>
   listeners (unregisterTimelineProvider ''A''
       (snd (registerTimelineProvider watched_provider TimelineService_new))) = [(0, 0)] \<and>
   listeners (Subscription_dispose (Subscription 0 0)
       (snd (registerTimelineProvider watched_provider TimelineService_new))) = [] \<and>
   timelineFired (fire_onDidChange 0 change_event (unregisterTimelineProvider ''A''
       (snd (registerTimelineProvider watched_provider TimelineService_new)))) = [change_event] \<and>
   providerSubscriptions (snd (registerTimelineProvider replacement_provider
       (snd (registerTimelineProvider watched_provider TimelineService_new)))) ''A''
     = Some (Subscription 1 1) \<and>
   listeners (snd (registerTimelineProvider replacement_provider
       (snd (registerTimelineProvider watched_provider TimelineService_new)))) = [(0, 0), (1, 1)]"
  by (simp add: service_defs example_defs
      watched_provider_def replacement_provider_def change_event_def fire_onDidChange_def
      Subscription_dispose_def Let_def)

text \<open>
  Claim C7, amended. \<open>unregisterTimelineProvider\<close> of an id that is registered deletes the
  provider and the entry of the id in \<open>providerSubscriptions\<close> and fires one \<open>removed\<close>
  event; it disposes neither the subscription nor the provider, and every listener stays
  attached. For an id that is not registered it changes nothing. A registration does not
  dispose a subscription either: the listeners attached after it are those attached
  before, or, when it replaces a provider, those that the \<open>dispose()\<close> of the replaced
  provider left attached, and one more when the new provider has an event source. The
  \<open>dispose\<close> of the object a registration returned keeps the listeners as they are.
\<close>

theorem subscription_never_released:
  "(map_of (providers svc) i \<noteq> None \<longrightarrow>
      map_of (providers (unregisterTimelineProvider i svc)) i = None \<and>
      providerSubscriptions (unregisterTimelineProvider i svc) = (providerSubscriptions svc)(i := None) \<and>
      providersFired (unregisterTimelineProvider i svc)
        = providersFired svc @ [\<lparr>added = None, removed = Some [i]\<rparr>] \<and>
      listeners (unregisterTimelineProvider i svc) = listeners svc \<and>
      disposed (unregisterTimelineProvider i svc) = disposed svc) \<and>
   (map_of (providers svc) i = None \<longrightarrow> unregisterTimelineProvider i svc = svc) \<and>
   listeners (snd (registerTimelineProvider p svc))
     = (case map_of (providers svc) (provider_id p) of
          None \<Rightarrow> listeners svc
        | Some ex \<Rightarrow> snd (dispose ex (listeners svc)))
       @ (case onDidChange p of None \<Rightarrow> [] | Some ev \<Rightarrow> [(ev, nextListener svc)]) \<and>
   listeners (Registration_dispose r svc) = listeners svc"
  by (cases r)
    (auto simp: unregisterTimelineProvider_def registerTimelineProvider_def Registration_dispose_def
      Let_def call_dispose_def subscribe_def AList.delete_conv'
      split: option.splits sum.splits prod.splits)

theorem subscription_never_released_witness:
  "map_of (providers (snd (registerTimelineProvider watched_provider TimelineService_new))) ''A'' \<noteq> None \<and>
   listeners (snd (registerTimelineProvider watched_provider TimelineService_new)) = [(0, 0)] \<and>
   listeners (unregisterTimelineProvider ''A''
       (snd (registerTimelineProvider watched_provider TimelineService_new))) = [(0, 0)] \<and>
   listeners (snd (registerTimelineProvider replacement_provider
       (snd (registerTimelineProvider watched_provider TimelineService_new)))) = [(0, 0), (1, 1)] \<and>
   listeners (snd (registerTimelineProvider replacement_provider
       (snd (registerTimelineProvider teardown_provider TimelineService_new)))) = [(1, 1)] \<and>
   map_of (providers TimelineService_new) ''A'' = None \<and>
   unregisterTimelineProvider ''A'' TimelineService_new = TimelineService_new"
  using subscription_never_released [of "snd (registerTimelineProvider watched_provider TimelineService_new)"
      "''A''" replacement_provider "Registration ''A''"]
    subscription_never_released [of "snd (registerTimelineProvider teardown_provider TimelineService_new)"
      "''A''" replacement_provider "Registration ''A''"]
    subscription_never_released [of TimelineService_new "''A''" replacement_provider "Registration ''A''"]
  by (simp add: service_defs example_defs
      watched_provider_def replacement_provider_def teardown_provider_def Let_def)

end
